theory Spec2Isabelle
  imports Main
begin

section \<open>Errors and strings\<close>

text \<open>
  Every exception the modelled code can raise is a value of \<open>error\<close>; a function that
  can raise returns \<open>error + 'a\<close>, with \<open>Inl\<close> the exception.
\<close>

datatype error =
    ValueError          \<comment> \<open>raised by \<open>main_or_master\<close>\<close>
  | ReError             \<comment> \<open>\<open>re.error\<close>: the pattern is not a regular expression\<close>
  | UnsupportedPattern  \<comment> \<open>the pattern is outside the fragment \<open>re_search\<close> models\<close>
  | KeyError            \<comment> \<open>a missing dictionary key\<close>
  | TypeError           \<comment> \<open>a \<open>None\<close> where a value is needed\<close>
  | AttributeError      \<comment> \<open>an attribute of \<open>None\<close>\<close>
  | OtherError string   \<comment> \<open>an exception of a collaborator (git, yaml, pydantic, the file system)\<close>

text \<open>\<open>sep.join(xs)\<close> of Python.\<close>

fun str_join :: "string \<Rightarrow> string list \<Rightarrow> string" where
  "str_join sep [] = []"
| "str_join sep [x] = x"
| "str_join sep (x # y # ys) = x @ sep @ str_join sep (y # ys)"

definition newline :: string where
  "newline = [CHR 0x0A]"

text \<open>\<open>s.startswith(p)\<close>, \<open>s.endswith(p)\<close> and \<open>p in s\<close> on strings.\<close>

fun startswith :: "string \<Rightarrow> string \<Rightarrow> bool" where
  "startswith s [] = True"
| "startswith [] (p # ps) = False"
| "startswith (c # cs) (p # ps) = (c = p \<and> startswith cs ps)"

definition endswith :: "string \<Rightarrow> string \<Rightarrow> bool" where
  "endswith s p = startswith (rev s) (rev p)"

fun contains :: "string \<Rightarrow> string \<Rightarrow> bool" where
  "contains [] p = (p = [])"
| "contains (c # cs) p = (startswith (c # cs) p \<or> contains cs p)"

text \<open>
  \<open>os.path.join(a, b)\<close> of \<open>posixpath\<close>: an absolute \<open>b\<close> replaces \<open>a\<close>; otherwise
  \<open>b\<close> is appended, after a separator unless \<open>a\<close> is empty or ends with one.
\<close>

definition os_path_join :: "string \<Rightarrow> string \<Rightarrow> string" where
  "os_path_join a b =
     (if startswith b ''/'' then b
      else if a = [] \<or> endswith a ''/'' then a @ b
      else a @ ''/'' @ b)"

section \<open>Regular expression search\<close>

text \<open>
  The code decides account coverage with \<open>re.search(pattern, text)\<close> of the Python
  standard library. The reconciler below takes the search as a parameter
  \<open>search pattern text\<close>, which returns whether a match was found or the exception
  raised for the pattern.

  \<open>re_search\<close> is that search on the patterns the account matchers of the examples
  are made of: literal characters, alternation \<open>|\<close> and groups \<open>( )\<close>. Such a pattern
  denotes a finite set of words and the search succeeds iff one of them occurs in the
  text. An unbalanced parenthesis is \<open>re.error\<close>; any other special character
  leaves the fragment and is reported as \<open>UnsupportedPattern\<close>.
\<close>

definition re_special :: "char \<Rightarrow> bool" where
  "re_special c = (c \<in> set [CHR ''.'', CHR ''^'', CHR ''$'', CHR ''*'', CHR ''+'', CHR ''?'',
       CHR ''{'', CHR ''}'', CHR ''['', CHR '']'', CHR 0x5C, CHR ''|'', CHR ''('', CHR '')''])"

text \<open>
  A frame is an open group: the words of its finished alternatives and the words of
  the alternative being read. The innermost group is the head of the stack.
\<close>

type_synonym frame = "string list \<times> string list"

fun re_parse :: "frame list \<Rightarrow> string \<Rightarrow> error + string list" where
  "re_parse st [] =
     (case st of
        [(alts, cur)] \<Rightarrow> Inr (alts @ cur)
      | _ \<Rightarrow> Inl ReError)"
| "re_parse st (c # cs) =
     (if c = CHR ''('' then re_parse (([], [[]]) # st) cs
      else if c = CHR '')'' then
        (case st of
           (alts, cur) # (palts, pcur) # rest \<Rightarrow>
             re_parse ((palts, concat (map (\<lambda>u. map (\<lambda>v. u @ v) (alts @ cur)) pcur)) # rest) cs
         | _ \<Rightarrow> Inl ReError)
      else if c = CHR ''|'' then
        (case st of
           (alts, cur) # rest \<Rightarrow> re_parse ((alts @ cur, [[]]) # rest) cs
         | [] \<Rightarrow> Inl ReError)
      else if re_special c then Inl UnsupportedPattern
      else
        (case st of
           (alts, cur) # rest \<Rightarrow> re_parse ((alts, map (\<lambda>w. w @ [c]) cur) # rest) cs
         | [] \<Rightarrow> Inl ReError))"

definition re_search :: "string \<Rightarrow> string \<Rightarrow> error + bool" where
  "re_search pattern text =
     (case re_parse [([], [[]])] pattern of
        Inl e \<Rightarrow> Inl e
      | Inr ws \<Rightarrow> Inr (list_ex (contains text) ws))"

section \<open>Data model\<close>

text \<open>The Change Record \<open>GitDiff\<close>: \<open>content\<close> is optional, \<open>is_deleted\<close> defaults to false.\<close>

record GitDiff =
  path :: string
  content :: "string option"
  is_deleted :: bool

text \<open>
  Modelled from the spec: the class \<open>Deleted\<close> of \<open>iambic.aws.models\<close>, the Deletion
  Directive \<open>{deleted, included_accounts, excluded_accounts}\<close>.
\<close>

record Deleted =
  d_deleted :: bool
  d_included_accounts :: "string list"
  d_excluded_accounts :: "string list"

text \<open>The field \<open>deleted\<close> of a template is a boolean or a list of directives.\<close>

datatype deleted_field = DBool bool | DList "Deleted list"

text \<open>
  Modelled from the spec: the template classes of \<open>TEMPLATE_TYPE_MAP\<close>, with the fields
  the code reads and writes; the fields of a particular kind of template are the
  extension of the record.
\<close>

record Template =
  file_path :: string
  resource_id :: string
  included_accounts :: "string list"
  excluded_accounts :: "string list"
  deleted :: deleted_field

text \<open>Modelled from the spec: an entry of the Account Registry \<open>config.aws.accounts\<close>.\<close>

record aws_account =
  account_id :: string
  account_name :: string

section \<open>Scope Reconciler: \<open>create_templates_for_modified_files\<close>\<close>

text \<open>
  The calls of \<open>log\<close> in the reconciler do not change what it returns and are left out.
  \<open>search pattern text\<close> stands for \<open>re.search(pattern, text)\<close>.
\<close>

type_synonym search = "string \<Rightarrow> string \<Rightarrow> error + bool"

definition account_regex :: "aws_account \<Rightarrow> string" where
  "account_regex aws_account = ''('' @ account_id aws_account @ ''|'' @ account_name aws_account @ '')''"

text \<open>
  The loop over \<open>config.aws.accounts\<close> (baseline included \<open>*\<close>). The state is
  \<open>(deleted_included_accounts, template.included_accounts)\<close>.
\<close>

fun implicit_loop ::
  "search \<Rightarrow> string \<Rightarrow> aws_account list \<Rightarrow> string list \<times> string list
     \<Rightarrow> error + string list \<times> string list" where
  "implicit_loop search dea_str [] st = Inr st"
| "implicit_loop search dea_str (a # as) (dia, inc) =
     (case search (account_regex a) dea_str of
        Inl e \<Rightarrow> Inl e
      | Inr found \<Rightarrow>
          if found then implicit_loop search dea_str as (dia, inc)
          else implicit_loop search dea_str as
                 (dia @ [account_regex a], inc @ [account_regex a]))"

text \<open>The loop over \<open>main_template.included_accounts\<close> (baseline without \<open>*\<close>).\<close>

fun explicit_loop ::
  "search \<Rightarrow> string \<Rightarrow> string list \<Rightarrow> string list \<times> string list
     \<Rightarrow> error + string list \<times> string list" where
  "explicit_loop search dea_str [] st = Inr st"
| "explicit_loop search dea_str (account # rest) (dia, inc) =
     (case search account dea_str of
        Inl e \<Rightarrow> Inl e
      | Inr found \<Rightarrow>
          if found then explicit_loop search dea_str rest (dia, inc)
          else explicit_loop search dea_str rest (dia @ [account], inc @ [account]))"

text \<open>
  Lines 208 to 272: nothing is done when the current record includes \<open>*\<close>.
  \<open>deleted_exclude_accounts\<close> is a copy of the current \<open>included_accounts\<close> taken
  before anything is appended.
\<close>

definition shrink_pass ::
  "search \<Rightarrow> aws_account list \<Rightarrow> string list \<Rightarrow> string list
     \<Rightarrow> error + string list \<times> string list" where
  "shrink_pass search accounts main_included deleted_exclude_accounts =
     (let deleted_exclude_accounts_str = str_join newline deleted_exclude_accounts in
      if ''*'' \<notin> set deleted_exclude_accounts then
        if ''*'' \<in> set main_included then
          implicit_loop search deleted_exclude_accounts_str accounts
            ([], deleted_exclude_accounts)
        else
          explicit_loop search deleted_exclude_accounts_str main_included
            ([], deleted_exclude_accounts)
      else Inr ([], deleted_exclude_accounts))"

text \<open>
  \<open>main_template_excluded_accounts_str\<close> is \<open>None\<close> for an empty list, and the test
  \<open>main_template_excluded_accounts_str and re.search(...)\<close> searches only in a string
  that is not empty.
\<close>

definition main_template_excluded_accounts_str :: "string list \<Rightarrow> string option" where
  "main_template_excluded_accounts_str main_excluded =
     (if main_excluded \<noteq> [] then Some (str_join newline main_excluded) else None)"

definition already_excluded :: "search \<Rightarrow> string option \<Rightarrow> string \<Rightarrow> error + bool" where
  "already_excluded search mexcl_str account =
     (case mexcl_str of
        None \<Rightarrow> Inr False
      | Some s \<Rightarrow> if s = [] then Inr False else search account s)"

text \<open>
  The second test of the loop: \<open>re.search(account, main_template_included_accounts_str)
  or "*" in main_template.included_accounts\<close>; the search is evaluated first.
\<close>

definition previously_included :: "search \<Rightarrow> string list \<Rightarrow> string \<Rightarrow> error + bool" where
  "previously_included search main_included account =
     (case search account (str_join newline main_included) of
        Inl e \<Rightarrow> Inl e
      | Inr found \<Rightarrow> Inr (found \<or> ''*'' \<in> set main_included))"

text \<open>
  The loop over \<open>template.excluded_accounts\<close>, lines 293 to 322. The state is
  \<open>(deleted_included_accounts, template.included_accounts, template_excluded_accounts)\<close>.
\<close>

fun excluded_loop ::
  "search \<Rightarrow> string list \<Rightarrow> string list \<Rightarrow> string list
     \<Rightarrow> string list \<times> string list \<times> string list
     \<Rightarrow> error + string list \<times> string list \<times> string list" where
  "excluded_loop search main_included main_excluded [] st = Inr st"
| "excluded_loop search main_included main_excluded (account # rest) (dia, inc, texcl) =
     (case already_excluded search (main_template_excluded_accounts_str main_excluded) account of
        Inl e \<Rightarrow> Inl e
      | Inr already \<Rightarrow>
          if already then
            excluded_loop search main_included main_excluded rest (dia, inc, texcl @ [account])
          else
            (case previously_included search main_included account of
               Inl e \<Rightarrow> Inl e
             | Inr live \<Rightarrow>
                 if live then
                   excluded_loop search main_included main_excluded rest
                     (dia @ [account], inc @ [account], texcl)
                 else
                   excluded_loop search main_included main_excluded rest
                     (dia, inc, texcl @ [account])))"

text \<open>
  Lines 202 to 324: both passes. The result is \<open>deleted_included_accounts\<close> and the
  current record with its \<open>included_accounts\<close> extended and its \<open>excluded_accounts\<close>
  rebuilt.
\<close>

definition scope_passes ::
  "search \<Rightarrow> aws_account list \<Rightarrow> 'a Template_scheme \<Rightarrow> 'a Template_scheme
     \<Rightarrow> error + string list \<times> 'a Template_scheme" where
  "scope_passes search accounts main_template template =
     (case shrink_pass search accounts (included_accounts main_template)
             (included_accounts template) of
        Inl e \<Rightarrow> Inl e
      | Inr (dia, inc) \<Rightarrow>
          (case excluded_loop search (included_accounts main_template)
                  (excluded_accounts main_template) (excluded_accounts template)
                  (dia, inc, []) of
             Inl e \<Rightarrow> Inl e
           | Inr (dia', inc', texcl) \<Rightarrow>
               Inr (dia', template\<lparr>included_accounts := inc', excluded_accounts := texcl\<rparr>)))"

text \<open>Lines 327 to 331: the directive built from the accumulated matchers.\<close>

definition deleted_obj :: "string list \<Rightarrow> string list \<Rightarrow> Deleted" where
  "deleted_obj deleted_included_accounts deleted_exclude_accounts =
     \<lparr>d_deleted = True,
      d_included_accounts = deleted_included_accounts,
      d_excluded_accounts = filter (\<lambda>ea. ea \<noteq> ''*'') deleted_exclude_accounts\<rparr>"

text \<open>Lines 326 to 335. \<open>template.deleted is not True\<close> holds of \<open>False\<close> and of every list.\<close>

definition add_directive ::
  "string list \<Rightarrow> string list \<Rightarrow> 'a Template_scheme \<Rightarrow> 'a Template_scheme" where
  "add_directive deleted_included_accounts deleted_exclude_accounts template =
     (if deleted_included_accounts \<noteq> [] \<and> deleted template \<noteq> DBool True then
        (case deleted template of
           DBool b \<Rightarrow>
             template\<lparr>deleted :=
               DList [deleted_obj deleted_included_accounts deleted_exclude_accounts]\<rparr>
         | DList ds \<Rightarrow>
             template\<lparr>deleted :=
               DList (ds @ [deleted_obj deleted_included_accounts deleted_exclude_accounts])\<rparr>)
      else template)"

text \<open>The body of the loop from line 202 on, for a parsed baseline and current record.\<close>

definition reconcile ::
  "search \<Rightarrow> aws_account list \<Rightarrow> 'a Template_scheme \<Rightarrow> 'a Template_scheme
     \<Rightarrow> error + 'a Template_scheme" where
  "reconcile search accounts main_template template =
     (case scope_passes search accounts main_template template of
        Inl e \<Rightarrow> Inl e
      | Inr (dia, template') \<Rightarrow>
          Inr (add_directive dia (included_accounts template) template'))"

section \<open>Collaborators\<close>

text \<open>
  What the code calls outside this module is a parameter of the model: the YAML parser,
  the registry \<open>TEMPLATE_TYPE_MAP\<close> of template classes (a constructor takes the
  \<open>file_path\<close> and the parsed document, and may raise), the working tree read by
  \<open>open\<close>, \<open>DeepDiff\<close> (true when the difference it reports is not empty), and the two
  searches for \<open>NOQ_TEMPLATE_REGEX\<close>, in a file and in a string. \<open>'d\<close> is the type of
  parsed documents.
\<close>

record ('d, 'm) world =
  yaml_load :: "string \<Rightarrow> error + 'd"
  template_type :: "'d \<Rightarrow> error + string"
  TEMPLATE_TYPE_MAP :: "string \<Rightarrow> (string \<Rightarrow> 'd \<Rightarrow> error + 'm Template_scheme) option"
  open_file :: "string \<Rightarrow> error + string"
  DeepDiff :: "'d \<Rightarrow> 'd \<Rightarrow> bool"
  file_regex_search :: "string \<Rightarrow> error + bool"
  noq_template_search :: "string \<Rightarrow> bool"

definition bind_err :: "error + 'a \<Rightarrow> ('a \<Rightarrow> error + 'b) \<Rightarrow> error + 'b" where
  "bind_err x f = (case x of Inl e \<Rightarrow> Inl e | Inr v \<Rightarrow> f v)"

text \<open>\<open>for x in xs: body\<close>, where the body updates a state and may raise.\<close>

fun for_each :: "('a \<Rightarrow> 's \<Rightarrow> error + 's) \<Rightarrow> 'a list \<Rightarrow> 's \<Rightarrow> error + 's" where
  "for_each body [] s = Inr s"
| "for_each body (x # xs) s =
     (case body x s of Inl e \<Rightarrow> Inl e | Inr s' \<Rightarrow> for_each body xs s')"

text \<open>\<open>StringIO(content)\<close>: no content is the empty text.\<close>

definition string_io :: "string option \<Rightarrow> string" where
  "string_io c = (case c of None \<Rightarrow> [] | Some text \<Rightarrow> text)"

text \<open>\<open>TEMPLATE_TYPE_MAP[template_dict["template_type"]]\<close>.\<close>

definition template_cls_of ::
  "('d, 'm) world \<Rightarrow> 'd \<Rightarrow> error + (string \<Rightarrow> 'd \<Rightarrow> error + 'm Template_scheme)" where
  "template_cls_of w template_dict =
     bind_err (template_type w template_dict) (\<lambda>ty.
       case TEMPLATE_TYPE_MAP w ty of
         None \<Rightarrow> Inl KeyError
       | Some template_cls \<Rightarrow> Inr template_cls)"

text \<open>The body of the loop of \<open>create_templates_for_modified_files\<close>, lines 195 to 337.\<close>

definition modified_template ::
  "('d, 'm) world \<Rightarrow> search \<Rightarrow> aws_account list \<Rightarrow> GitDiff
     \<Rightarrow> 'm Template_scheme list \<Rightarrow> error + 'm Template_scheme list" where
  "modified_template w search accounts git_diff templates =
     bind_err (yaml_load w (string_io (content git_diff))) (\<lambda>main_template_dict.
     bind_err (template_cls_of w main_template_dict) (\<lambda>template_cls.
     bind_err (template_cls (path git_diff) main_template_dict) (\<lambda>main_template.
     bind_err (open_file w (path git_diff)) (\<lambda>text.
     bind_err (yaml_load w text) (\<lambda>template_dict.
     bind_err (template_cls (path git_diff) template_dict) (\<lambda>template.
     bind_err (reconcile search accounts main_template template) (\<lambda>template'.
     Inr (templates @ [template']))))))))"

definition create_templates_for_modified_files ::
  "('d, 'm) world \<Rightarrow> search \<Rightarrow> aws_account list \<Rightarrow> GitDiff list
     \<Rightarrow> error + 'm Template_scheme list" where
  "create_templates_for_modified_files w search accounts modified_files =
     for_each (modified_template w search accounts) modified_files []"

section \<open>Deletion Materializer: \<open>create_templates_for_deleted_files\<close>\<close>

text \<open>
  Lines 172 to 174 parse the content of the record into a template of its type; lines
  175 to 179 are the rest of the body of the loop (the call of \<open>log.info\<close> left out).
\<close>

definition load_template :: "('d, 'm) world \<Rightarrow> GitDiff \<Rightarrow> error + 'm Template_scheme" where
  "load_template w git_diff =
     bind_err (yaml_load w (string_io (content git_diff))) (\<lambda>template_dict.
     bind_err (template_cls_of w template_dict) (\<lambda>template_cls.
     template_cls (path git_diff) template_dict))"

definition deleted_template ::
  "('d, 'm) world \<Rightarrow> GitDiff \<Rightarrow> 'm Template_scheme list \<Rightarrow> error + 'm Template_scheme list" where
  "deleted_template w git_diff templates =
     bind_err (load_template w git_diff) (\<lambda>template.
       if deleted template = DBool True then Inr templates
       else Inr (templates @ [template\<lparr>deleted := DBool True\<rparr>]))"

definition create_templates_for_deleted_files ::
  "('d, 'm) world \<Rightarrow> GitDiff list \<Rightarrow> error + 'm Template_scheme list" where
  "create_templates_for_deleted_files w deleted_files =
     for_each (deleted_template w) deleted_files []"

section \<open>Revision Differencer: \<open>retrieve_git_changes\<close>\<close>

text \<open>
  An entry of the diff: the two paths and the text of the pre-image blob
  (\<open>a_blob.data_stream.read().decode("utf-8")\<close>), absent when the entry has no
  \<open>a_blob\<close>. \<open>iter_A\<close>, \<open>iter_D\<close> and \<open>iter_M\<close> are what
  \<open>diff_index.iter_change_type\<close> yields for \<open>"A"\<close>, \<open>"D"\<close> and \<open>"M"\<close>.
\<close>

record DiffEntry =
  a_path :: string
  b_path :: string
  a_blob :: "string option"

record DiffIndex =
  iter_A :: "DiffEntry list"
  iter_D :: "DiffEntry list"
  iter_M :: "DiffEntry list"

text \<open>The dictionary \<open>files\<close> with its three keys.\<close>

record Files =
  new_files :: "GitDiff list"
  deleted_files :: "GitDiff list"
  modified_files :: "GitDiff list"

definition a_blob_text :: "DiffEntry \<Rightarrow> error + string" where
  "a_blob_text file_obj =
     (case a_blob file_obj of None \<Rightarrow> Inl AttributeError | Some text \<Rightarrow> Inr text)"

text \<open>
  Lines 100 to 105. The local variable \<open>path\<close> of the code is \<open>path'\<close> here.
  The path of the record is joined with \<open>repo_dir\<close> a second time.
\<close>

definition collect_new :: "('d, 'm) world \<Rightarrow> string \<Rightarrow> DiffEntry \<Rightarrow> Files \<Rightarrow> error + Files" where
  "collect_new w repo_dir file_obj files =
     (let path' = os_path_join repo_dir (b_path file_obj) in
      if endswith path' ''.yaml'' then
        bind_err (file_regex_search w path') (\<lambda>tagged.
          if tagged then
            Inr (files\<lparr>new_files := new_files files @
                   [\<lparr>path = os_path_join repo_dir path', content = None, is_deleted = False\<rparr>]\<rparr>)
          else Inr files)
      else Inr files)"

text \<open>Lines 108 to 116.\<close>

definition collect_deleted :: "('d, 'm) world \<Rightarrow> string \<Rightarrow> DiffEntry \<Rightarrow> Files \<Rightarrow> error + Files" where
  "collect_deleted w repo_dir file_obj files =
     (let path' = b_path file_obj in
      if endswith path' ''.yaml'' then
        bind_err (a_blob_text file_obj) (\<lambda>text.
          if noq_template_search w text then
            Inr (files\<lparr>deleted_files := deleted_files files @
                   [\<lparr>path = os_path_join repo_dir path', content = Some text, is_deleted = True\<rparr>]\<rparr>)
          else Inr files)
      else Inr files)"

text \<open>Lines 155 to 159: the record of an ordinary modification.\<close>

definition emit_modified :: "string \<Rightarrow> string \<Rightarrow> DiffEntry \<Rightarrow> Files \<Rightarrow> error + Files" where
  "emit_modified repo_dir path' file_obj files =
     bind_err (a_blob_text file_obj) (\<lambda>text.
       Inr (files\<lparr>modified_files := modified_files files @
              [\<lparr>path = os_path_join repo_dir path', content = Some text, is_deleted = False\<rparr>]\<rparr>))"

text \<open>
  Lines 126 to 153, for a renamed file: \<open>Inr None\<close> when the code falls through to
  line 155, \<open>Inr (Some files)\<close> when it reaches a \<open>continue\<close>.
\<close>

definition resolve_rename ::
  "('d, 'm) world \<Rightarrow> string \<Rightarrow> string \<Rightarrow> string \<Rightarrow> DiffEntry \<Rightarrow> Files
     \<Rightarrow> error + Files option" where
  "resolve_rename w repo_dir path' main_path file_obj files =
     bind_err (a_blob_text file_obj) (\<lambda>text.
       let deleted_file =
             \<lparr>path = os_path_join repo_dir main_path, content = Some text, is_deleted = True\<rparr>
       in
       if noq_template_search w text then
         bind_err (open_file w path') (\<lambda>current_text.
         bind_err (yaml_load w current_text) (\<lambda>template_dict.
         bind_err (yaml_load w (string_io (content deleted_file))) (\<lambda>main_template_dict.
         if \<not> DeepDiff w template_dict main_template_dict then Inr (Some files)
         else
           bind_err (template_cls_of w main_template_dict) (\<lambda>template_cls.
           bind_err (template_cls (path deleted_file) main_template_dict) (\<lambda>main_template.
           bind_err (template_cls path' template_dict) (\<lambda>template.
           if resource_id main_template \<noteq> resource_id template then
             Inr (Some (files\<lparr>
               deleted_files := deleted_files files @ [deleted_file],
               new_files := new_files files @
                 [\<lparr>path = path', content = None, is_deleted = False\<rparr>]\<rparr>))
           else Inr None))))))
       else Inr None)"

text \<open>Lines 120 to 159.\<close>

definition collect_modified :: "('d, 'm) world \<Rightarrow> string \<Rightarrow> DiffEntry \<Rightarrow> Files \<Rightarrow> error + Files" where
  "collect_modified w repo_dir file_obj files =
     (let path' = os_path_join repo_dir (b_path file_obj) in
      if endswith path' ''.yaml'' then
        bind_err (file_regex_search w path') (\<lambda>tagged.
          if tagged then
            (let main_path = os_path_join repo_dir (a_path file_obj) in
             if main_path \<noteq> path' then
               bind_err (resolve_rename w repo_dir path' main_path file_obj files) (\<lambda>r.
                 case r of
                   Some files' \<Rightarrow> Inr files'
                 | None \<Rightarrow> emit_modified repo_dir path' file_obj files)
             else emit_modified repo_dir path' file_obj files)
          else Inr files)
      else Inr files)"

text \<open>Lines 92 to 161: the three loops over the diff.\<close>

definition classify_diff :: "('d, 'm) world \<Rightarrow> string \<Rightarrow> DiffIndex \<Rightarrow> error + Files" where
  "classify_diff w repo_dir diff_index =
     bind_err (for_each (collect_new w repo_dir) (iter_A diff_index)
                 \<lparr>new_files = [], deleted_files = [], modified_files = []\<rparr>) (\<lambda>files.
     bind_err (for_each (collect_deleted w repo_dir) (iter_D diff_index) files) (\<lambda>files.
     for_each (collect_modified w repo_dir) (iter_M diff_index) files))"

text \<open>
  The repository as \<open>Repo(repo_dir)\<close> gives it: whether the working tree is dirty, the
  names of the local branches and of the remotes, what \<open>remote.fetch()\<close> raises (if
  anything), \<open>repo.commit(rev)\<close>, \<open>repo.head.commit.tree\<close> and the diff of two
  revisions. \<open>'c\<close> is the type of commits and trees.
\<close>

record 'c Repo =
  is_dirty :: bool
  heads :: "string list"
  remotes :: "string list"
  fetch :: "string \<Rightarrow> error option"
  commit :: "string \<Rightarrow> error + 'c"
  head_commit_tree :: "error + 'c"
  diff :: "'c \<Rightarrow> 'c \<Rightarrow> error + DiffIndex"

text \<open>Lines 28 to 34.\<close>

definition main_or_master :: "'c Repo \<Rightarrow> error + string" where
  "main_or_master repo =
     (if list_ex (\<lambda>name. name \<noteq> []) (filter (\<lambda>name. name = ''main'') (heads repo))
      then Inr ''main''
      else if list_ex (\<lambda>name. name \<noteq> []) (filter (\<lambda>name. name = ''master'') (heads repo))
      then Inr ''master''
      else Inl ValueError)"

text \<open>
  What the function does besides returning: the calls of \<open>log.error\<close> (message and
  \<open>file_path\<close>) and the fetches, in order. They are kept when an exception ends the
  call.
\<close>

datatype event = LogError string string | Fetch string

definition dirty_message :: string where
  "dirty_message =
     ''Template git repo is dirty, and `allow_dirty` is not enabled. Refusing to proceed''"

text \<open>Lines 77 and 78.\<close>

fun fetch_all :: "'c Repo \<Rightarrow> string list \<Rightarrow> event list \<times> error option" where
  "fetch_all repo [] = ([], None)"
| "fetch_all repo (remote # rest) =
     (case fetch repo remote of
        Some e \<Rightarrow> ([Fetch remote], Some e)
      | None \<Rightarrow> (case fetch_all repo rest of (evs, r) \<Rightarrow> (Fetch remote # evs, r)))"

text \<open>Lines 75 to 84.\<close>

definition resolve_from :: "'c Repo \<Rightarrow> string option \<Rightarrow> event list \<times> (error + 'c)" where
  "resolve_from repo from_sha =
     (case from_sha of
        None \<Rightarrow>
          (case fetch_all repo (remotes repo) of
             (evs, Some e) \<Rightarrow> (evs, Inl e)
           | (evs, None) \<Rightarrow> (evs, commit repo ''origin/main''))
      | Some sha \<Rightarrow> ([], commit repo sha))"

text \<open>Lines 85 to 90.\<close>

definition resolve_to :: "'c Repo \<Rightarrow> string option \<Rightarrow> error + 'c" where
  "resolve_to repo to_sha =
     (case to_sha of
        None \<Rightarrow> head_commit_tree repo
      | Some sha \<Rightarrow> commit repo sha)"

text \<open>The whole function. \<open>allow_dirty\<close> is a parameter the body does not read.\<close>

definition retrieve_git_changes ::
  "('d, 'm) world \<Rightarrow> 'c Repo \<Rightarrow> string \<Rightarrow> bool \<Rightarrow> string option \<Rightarrow> string option
     \<Rightarrow> event list \<times> (error + Files)" where
  "retrieve_git_changes w repo repo_dir allow_dirty from_sha to_sha =
     (let dirty_log = (if is_dirty repo then [LogError dirty_message repo_dir] else []) in
      case resolve_from repo from_sha of
        (evs, r) \<Rightarrow>
          (dirty_log @ evs,
           bind_err r (\<lambda>from_sha_obj.
           bind_err (resolve_to repo to_sha) (\<lambda>to_sha_obj.
           bind_err (diff repo from_sha_obj to_sha_obj) (\<lambda>diff_index.
           classify_diff w repo_dir diff_index)))))"

section \<open>Notions used by the properties\<close>

text \<open>
  The three outcomes of the loop over the current \<open>excluded_accounts\<close>, as the tests
  of lines 294 to 322 decide them.
\<close>

definition stays_excluded :: "search \<Rightarrow> string list \<Rightarrow> string \<Rightarrow> bool" where
  "stays_excluded search main_excluded account =
     (already_excluded search (main_template_excluded_accounts_str main_excluded) account
        = Inr True)"

definition marked_for_deletion ::
  "search \<Rightarrow> string list \<Rightarrow> string list \<Rightarrow> string \<Rightarrow> bool" where
  "marked_for_deletion search main_included main_excluded account =
     (already_excluded search (main_template_excluded_accounts_str main_excluded) account
        = Inr False \<and>
      previously_included search main_included account = Inr True)"

definition newly_excluded ::
  "search \<Rightarrow> string list \<Rightarrow> string list \<Rightarrow> string \<Rightarrow> bool" where
  "newly_excluded search main_included main_excluded account =
     (already_excluded search (main_template_excluded_accounts_str main_excluded) account
        = Inr False \<and>
      previously_included search main_included account = Inr False)"

definition kept_excluded ::
  "search \<Rightarrow> string list \<Rightarrow> string list \<Rightarrow> string \<Rightarrow> bool" where
  "kept_excluded search main_included main_excluded account =
     (stays_excluded search main_excluded account \<or>
      newly_excluded search main_included main_excluded account)"

text \<open>A search that raises for no pattern.\<close>

definition never_raises :: "search \<Rightarrow> bool" where
  "never_raises search = (\<forall>pattern text. \<exists>found. search pattern text = Inr found)"

text \<open>A template of the examples, given by its scope and its \<open>deleted\<close> field.\<close>

definition example_template :: "string list \<Rightarrow> string list \<Rightarrow> deleted_field \<Rightarrow> Template" where
  "example_template incl excl del =
     \<lparr>file_path = ''role.yaml'', resource_id = ''role'',
      included_accounts = incl, excluded_accounts = excl, deleted = del\<rparr>"

text \<open>A directive left by an earlier reconciliation.\<close>

definition earlier_directive :: Deleted where
  "earlier_directive =
     \<lparr>d_deleted = True, d_included_accounts = [''staging''],
      d_excluded_accounts = [''prod'', ''dev'']\<rparr>"

subsection \<open>An example repository\<close>

text \<open>
  The collaborators of the examples. A document is a list of keys and values, read
  from one of four texts; \<open>DeepDiff\<close> reports a pair that one document lacks; the template class
  \<open>role\<close> takes \<open>resource_id\<close> from the key \<open>name\<close>; a text is tagged when it has a
  \<open>template_type\<close>.
\<close>

type_synonym example_doc = "(string \<times> string) list"

definition admin_text :: string where
  "admin_text = ''template_type: role, name: admin''"

definition admin_reordered_text :: string where
  "admin_reordered_text = ''name: admin, template_type: role''"

definition auditor_text :: string where
  "auditor_text = ''template_type: role, name: auditor''"

definition removed_text :: string where
  "removed_text = ''template_type: role, name: guest, deleted: true''"

definition example_yaml_load :: "string \<Rightarrow> error + example_doc" where
  "example_yaml_load text =
     (if text = admin_text then Inr [(''template_type'', ''role''), (''name'', ''admin'')]
      else if text = admin_reordered_text then
        Inr [(''name'', ''admin''), (''template_type'', ''role'')]
      else if text = auditor_text then
        Inr [(''template_type'', ''role''), (''name'', ''auditor'')]
      else if text = removed_text then
        Inr [(''template_type'', ''role''), (''name'', ''guest''), (''deleted'', ''true'')]
      else Inl (OtherError ''yaml''))"

definition role_template :: "string \<Rightarrow> example_doc \<Rightarrow> error + Template" where
  "role_template fp doc =
     (case map_of doc ''name'' of
        None \<Rightarrow> Inl (OtherError ''ValidationError'')
      | Some name \<Rightarrow>
          Inr \<lparr>file_path = fp, resource_id = name, included_accounts = [''*''],
               excluded_accounts = [],
               deleted = DBool (map_of doc ''deleted'' = Some ''true'')\<rparr>)"

definition example_world :: "(string \<times> string) list \<Rightarrow> (example_doc, unit) world" where
  "example_world tree =
     \<lparr>yaml_load = example_yaml_load,
      template_type = (\<lambda>doc. case map_of doc ''template_type'' of
                                None \<Rightarrow> Inl KeyError | Some ty \<Rightarrow> Inr ty),
      TEMPLATE_TYPE_MAP = (\<lambda>ty. if ty = ''role'' then Some role_template else None),
      open_file = (\<lambda>p. case map_of tree p of
                          None \<Rightarrow> Inl (OtherError ''FileNotFoundError'')
                        | Some text \<Rightarrow> Inr text),
      DeepDiff = (\<lambda>d1 d2. \<not> (list_all (\<lambda>kv. kv \<in> set d2) d1 \<and>
                                     list_all (\<lambda>kv. kv \<in> set d1) d2)),
      file_regex_search = (\<lambda>p. case map_of tree p of
                          None \<Rightarrow> Inl (OtherError ''FileNotFoundError'')
                        | Some text \<Rightarrow> Inr (contains text ''template_type'')),
      noq_template_search = (\<lambda>text. contains text ''template_type'')\<rparr>"

text \<open>
  A repository with one remote, whose commits are numbers; \<open>origin/main\<close> resolves
  to 1 when \<open>has_origin_main\<close>, \<open>origin/master\<close> to 3 when \<open>has_origin_master\<close>,
  and the head tree is 2. Every diff is \<open>diff_index\<close>.
\<close>

definition example_repo ::
  "bool \<Rightarrow> string list \<Rightarrow> bool \<Rightarrow> bool \<Rightarrow> DiffIndex \<Rightarrow> nat Repo" where
  "example_repo dirty branches has_origin_main has_origin_master diff_index =
     \<lparr>is_dirty = dirty, heads = branches, remotes = [''origin''],
      fetch = (\<lambda>remote. None),
      commit = (\<lambda>sha. if sha = ''origin/main'' \<and> has_origin_main then Inr 1
                        else if sha = ''origin/master'' \<and> has_origin_master then Inr 3
                        else Inl (OtherError ''BadName'')),
      head_commit_tree = Inr 2,
      diff = (\<lambda>a b. Inr diff_index)\<rparr>"

definition empty_diff :: DiffIndex where
  "empty_diff = \<lparr>iter_A = [], iter_D = [], iter_M = []\<rparr>"

definition no_files :: Files where
  "no_files = \<lparr>new_files = [], deleted_files = [], modified_files = []\<rparr>"

section \<open>Properties\<close>

subsection \<open>The loops of the reconciler\<close>

lemma explicit_loop_Inr:
  "explicit_loop search s xs (dia, inc) = Inr (dia', inc') \<Longrightarrow>
     dia' = dia @ filter (\<lambda>a. search a s = Inr False) xs \<and>
     inc' = inc @ filter (\<lambda>a. search a s = Inr False) xs"
proof (induction xs arbitrary: dia inc)
  case Nil
  then show ?case by simp
next
  case (Cons a xs)
  show ?case
  proof (cases "search a s")
    case (Inl e)
    with Cons.prems show ?thesis by simp
  next
    case (Inr found)
    show ?thesis
    proof (cases found)
      case True
      with Inr Cons.prems Cons.IH[of dia inc] show ?thesis by simp
    next
      case False
      with Inr Cons.prems Cons.IH[of "dia @ [a]" "inc @ [a]"] show ?thesis by simp
    qed
  qed
qed

lemma implicit_loop_Inr:
  "implicit_loop search s as (dia, inc) = Inr (dia', inc') \<Longrightarrow>
     dia' = dia @ filter (\<lambda>r. search r s = Inr False) (map account_regex as) \<and>
     inc' = inc @ filter (\<lambda>r. search r s = Inr False) (map account_regex as)"
proof (induction as arbitrary: dia inc)
  case Nil
  then show ?case by simp
next
  case (Cons a as)
  show ?case
  proof (cases "search (account_regex a) s")
    case (Inl e)
    with Cons.prems show ?thesis by simp
  next
    case (Inr found)
    show ?thesis
    proof (cases found)
      case True
      with Inr Cons.prems Cons.IH[of dia inc] show ?thesis by simp
    next
      case False
      with Inr Cons.prems
        Cons.IH[of "dia @ [account_regex a]" "inc @ [account_regex a]"]
      show ?thesis by simp
    qed
  qed
qed

lemma excluded_loop_Inr:
  "excluded_loop search mi me xs (dia, inc, texcl) = Inr (dia', inc', texcl') \<Longrightarrow>
     dia' = dia @ filter (marked_for_deletion search mi me) xs \<and>
     inc' = inc @ filter (marked_for_deletion search mi me) xs \<and>
     texcl' = texcl @ filter (kept_excluded search mi me) xs \<and>
     (\<forall>a \<in> set xs. marked_for_deletion search mi me a \<noteq> kept_excluded search mi me a)"
proof (induction xs arbitrary: dia inc texcl)
  case Nil
  then show ?case by simp
next
  case (Cons a xs)
  let ?al = "already_excluded search (main_template_excluded_accounts_str me) a"
  let ?pr = "previously_included search mi a"
  show ?case
  proof (cases ?al)
    case (Inl e)
    with Cons.prems show ?thesis by simp
  next
    case al: (Inr already)
    show ?thesis
    proof (cases already)
      case True
      with al Cons.prems Cons.IH[of dia inc "texcl @ [a]"] show ?thesis
        by (simp add: marked_for_deletion_def kept_excluded_def stays_excluded_def newly_excluded_def)
    next
      case nal: False
      show ?thesis
      proof (cases ?pr)
        case (Inl e)
        with al nal Cons.prems show ?thesis by simp
      next
        case pr: (Inr live)
        show ?thesis
        proof (cases live)
          case True
          with al nal pr Cons.prems Cons.IH[of "dia @ [a]" "inc @ [a]" texcl] show ?thesis
            by (simp add: marked_for_deletion_def kept_excluded_def stays_excluded_def newly_excluded_def)
        next
          case False
          with al nal pr Cons.prems Cons.IH[of dia inc "texcl @ [a]"] show ?thesis
            by (simp add: marked_for_deletion_def kept_excluded_def stays_excluded_def newly_excluded_def)
        qed
      qed
    qed
  qed
qed

lemma re_parse_literal:
  "\<forall>c \<in> set w. \<not> re_special c \<Longrightarrow>
     re_parse ((alts, cur) # rest) (w @ cs) = re_parse ((alts, map (\<lambda>u. u @ w) cur) # rest) cs"
proof (induction w arbitrary: cur)
  case Nil
  then show ?case by simp
next
  case (Cons c w)
  have ns: "\<not> re_special c" using Cons.prems by simp
  then have "c \<noteq> CHR ''(''" "c \<noteq> CHR '')''" "c \<noteq> CHR ''|''"
    by (auto simp: re_special_def)
  then show ?case using Cons ns by (simp add: comp_def)
qed

lemma re_search_account_regex:
  assumes "\<forall>c \<in> set (account_id a). \<not> re_special c" "\<forall>c \<in> set (account_name a). \<not> re_special c"
  shows "re_search (account_regex a) text = Inr (contains text (account_id a) \<or> contains text (account_name a))"
proof -
  have "re_parse [([], [[]])] (account_regex a) =
        re_parse [([], [[]]), ([], [[]])] (account_id a @ ''|'' @ account_name a @ '')'')"
    by (simp add: account_regex_def)
  also have "\<dots> = re_parse [([], [account_id a]), ([], [[]])] (''|'' @ account_name a @ '')'')"
    using re_parse_literal[OF assms(1)] by simp
  also have "\<dots> = re_parse [([account_id a], [[]]), ([], [[]])] (account_name a @ '')'')"
    by simp
  also have "\<dots> = re_parse [([account_id a], [account_name a]), ([], [[]])] ('')'')"
    using re_parse_literal[OF assms(2)] by simp
  also have "\<dots> = Inr [account_id a, account_name a]"
    by simp
  finally show ?thesis by (simp add: re_search_def)
qed

lemma re_search_literal:
  assumes "\<forall>c \<in> set p. \<not> re_special c"
  shows "re_search p text = Inr (contains text p)"
proof -
  have "re_parse [([], [[]])] (p @ []) = re_parse [([], [p])] []"
    using re_parse_literal[OF assms, of "[]" "[[]]" "[]" "[]"] by simp
  then show ?thesis by (simp add: re_search_def)
qed


lemma scope_passes_Inr:
  assumes "scope_passes search accounts main cur = Inr (dia, t1)"
  obtains dia0 inc0 where
    "shrink_pass search accounts (included_accounts main) (included_accounts cur) = Inr (dia0, inc0)"
    "dia = dia0 @ filter (marked_for_deletion search (included_accounts main) (excluded_accounts main)) (excluded_accounts cur)"
    "t1 = cur\<lparr>included_accounts := inc0 @ filter (marked_for_deletion search (included_accounts main) (excluded_accounts main)) (excluded_accounts cur),
              excluded_accounts := filter (kept_excluded search (included_accounts main) (excluded_accounts main)) (excluded_accounts cur)\<rparr>"
    "\<forall>a \<in> set (excluded_accounts cur).
       marked_for_deletion search (included_accounts main) (excluded_accounts main) a \<noteq>
       kept_excluded search (included_accounts main) (excluded_accounts main) a"
proof -
  from assms obtain dia0 inc0 where
    sh: "shrink_pass search accounts (included_accounts main) (included_accounts cur) = Inr (dia0, inc0)"
    by (auto simp: scope_passes_def split: sum.splits)
  with assms obtain inc' texcl where
    ex: "excluded_loop search (included_accounts main) (excluded_accounts main)
           (excluded_accounts cur) (dia0, inc0, []) = Inr (dia, inc', texcl)"
    and t1: "t1 = cur\<lparr>included_accounts := inc', excluded_accounts := texcl\<rparr>"
    by (auto simp: scope_passes_def split: sum.splits)
  from excluded_loop_Inr[OF ex] sh t1 that show thesis by simp
qed

lemma scope_passes_deleted:
  "scope_passes search accounts main cur = Inr (dia, t1) \<Longrightarrow> deleted t1 = deleted cur"
  by (auto simp: scope_passes_def split: sum.splits)

lemma deleted_add_directive:
  "deleted (add_directive dia dea t) =
     (if dia = [] then deleted t
      else case deleted t of
             DBool b \<Rightarrow> if b then DBool True else DList [deleted_obj dia dea]
           | DList ds \<Rightarrow> DList (ds @ [deleted_obj dia dea]))"
  by (cases "deleted t") (auto simp: add_directive_def)

text \<open>With a search that never raises, the reconciler returns a record.\<close>

lemma explicit_loop_returns:
  "never_raises search \<Longrightarrow> \<exists>r. explicit_loop search s xs st = Inr r"
proof (induction xs arbitrary: st)
  case Nil
  then show ?case by simp
next
  case (Cons a xs)
  obtain dia inc where st: "st = (dia, inc)" by (cases st)
  from Cons.prems obtain found where f: "search a s = Inr found"
    unfolding never_raises_def by blast
  show ?case unfolding st using f Cons.IH[OF Cons.prems] by simp
qed

lemma implicit_loop_returns:
  "never_raises search \<Longrightarrow> \<exists>r. implicit_loop search s as st = Inr r"
proof (induction as arbitrary: st)
  case Nil
  then show ?case by simp
next
  case (Cons a as)
  obtain dia inc where st: "st = (dia, inc)" by (cases st)
  from Cons.prems obtain found where f: "search (account_regex a) s = Inr found"
    unfolding never_raises_def by blast
  show ?case unfolding st using f Cons.IH[OF Cons.prems] by simp
qed

lemma excluded_loop_returns:
  "never_raises search \<Longrightarrow> \<exists>r. excluded_loop search mi me xs st = Inr r"
proof (induction xs arbitrary: st)
  case Nil
  show ?case by (cases st) auto
next
  case (Cons a xs)
  obtain dia inc texcl where st: "st = (dia, inc, texcl)" using prod_cases3 by blast
  have "\<exists>already. already_excluded search (main_template_excluded_accounts_str me) a = Inr already"
  proof (cases "main_template_excluded_accounts_str me")
    case None
    then show ?thesis by (auto simp: already_excluded_def)
  next
    case (Some joined)
    from Cons.prems obtain found where "search a joined = Inr found"
      unfolding never_raises_def by blast
    with Some show ?thesis by (auto simp: already_excluded_def)
  qed
  then obtain already where
    al: "already_excluded search (main_template_excluded_accounts_str me) a = Inr already"
    by blast
  from Cons.prems obtain found where "search a (str_join newline mi) = Inr found"
    unfolding never_raises_def by blast
  then obtain live where pr: "previously_included search mi a = Inr live"
    by (auto simp: previously_included_def)
  show ?case unfolding st using al pr Cons.IH[OF Cons.prems] by simp
qed

lemma reconcile_returns:
  assumes "never_raises search"
  shows "\<exists>t. reconcile search accounts main cur = Inr t"
proof -
  obtain r1 where 1: "shrink_pass search accounts (included_accounts main) (included_accounts cur) = Inr r1"
    using implicit_loop_returns[OF assms] explicit_loop_returns[OF assms]
    unfolding shrink_pass_def Let_def by (metis (full_types))
  obtain dia0 inc0 where r1: "r1 = (dia0, inc0)" by (cases r1)
  obtain r2 where 2: "excluded_loop search (included_accounts main) (excluded_accounts main)
      (excluded_accounts cur) (dia0, inc0, []) = Inr r2"
    using excluded_loop_returns[OF assms] by blast
  obtain a b c where r2: "r2 = (a, b, c)" using prod_cases3 by blast
  show ?thesis using 1 2 r1 r2 by (simp add: reconcile_def scope_passes_def)
qed

text \<open>The definitions unfolded to evaluate the reconciler on an example.\<close>

lemmas reconcile_eval = re_search_def re_special_def newline_def example_template_def
  reconcile_def scope_passes_def shrink_pass_def add_directive_def deleted_obj_def
  main_template_excluded_accounts_str_def already_excluded_def previously_included_def

subsection \<open>The synthesized directive\<close>

text \<open>
  C1 (as amended). When the two passes accumulated a non-empty list
  \<open>deleted_included_accounts\<close> and the current record's \<open>deleted\<close> is not \<open>True\<close>, the
  reconciler returns a record whose last directive has \<open>deleted = True\<close>, the accumulated
  matchers as \<open>included_accounts\<close>, and as \<open>excluded_accounts\<close> the \<^emph>\<open>current\<close> record's
  \<open>included_accounts\<close>, as parsed, without the wildcard \<open>*\<close>.
\<close>

theorem directive_of_accumulated:
  assumes "scope_passes search accounts main cur = Inr (dia, t1)"
    and "dia \<noteq> []" and "deleted cur \<noteq> DBool True"
  shows "\<exists>t ds. reconcile search accounts main cur = Inr t \<and>
           deleted t = DList (ds @
             [\<lparr>d_deleted = True, d_included_accounts = dia,
               d_excluded_accounts = filter (\<lambda>ea. ea \<noteq> ''*'') (included_accounts cur)\<rparr>])"
proof -
  have r: "reconcile search accounts main cur = Inr (add_directive dia (included_accounts cur) t1)"
    using assms(1) by (simp add: reconcile_def)
  have d: "deleted t1 = deleted cur" using assms(1) by (rule scope_passes_deleted)
  show ?thesis
  proof (cases "deleted cur")
    case (DBool b)
    with assms(3) have "\<not> b" by simp
    with DBool d assms(2) have
      "deleted (add_directive dia (included_accounts cur) t1) =
         DList ([] @ [deleted_obj dia (included_accounts cur)])"
      by (simp add: deleted_add_directive)
    with r show ?thesis unfolding deleted_obj_def by blast
  next
    case (DList ds)
    with d assms(2) have
      "deleted (add_directive dia (included_accounts cur) t1) =
         DList (ds @ [deleted_obj dia (included_accounts cur)])"
      by (simp add: deleted_add_directive)
    with r show ?thesis unfolding deleted_obj_def by blast
  qed
qed

text \<open>
  C1 as stated takes the \<open>excluded_accounts\<close> of the directive from the baseline. With
  baseline \<open>[prod, dev]\<close> and current \<open>[dev]\<close> the directive excludes \<open>[dev]\<close>, the
  current list, and not \<open>[prod, dev]\<close>.
\<close>

theorem directive_excludes_baseline_counterexample:
  "scope_passes re_search []
     (example_template [''prod'', ''dev''] [] (DBool False))
     (example_template [''dev''] [] (DBool False))
   = Inr ([''prod''], example_template [''dev'', ''prod''] [] (DBool False)) \<and>
   reconcile re_search []
     (example_template [''prod'', ''dev''] [] (DBool False))
     (example_template [''dev''] [] (DBool False))
   = Inr (example_template [''dev'', ''prod''] []
       (DList [\<lparr>d_deleted = True, d_included_accounts = [''prod''],
                d_excluded_accounts = [''dev'']\<rparr>])) \<and>
   [''dev''] \<noteq> filter (\<lambda>ea. ea \<noteq> ''*'')
      (included_accounts (example_template [''prod'', ''dev''] [] (DBool False)))"
  by (simp add: reconcile_eval)

text \<open>The amended statement at the same input.\<close>

theorem directive_of_accumulated_witness:
  "scope_passes re_search []
     (example_template [''prod'', ''dev''] [] (DBool False))
     (example_template [''dev''] [] (DBool False))
   = Inr ([''prod''], example_template [''dev'', ''prod''] [] (DBool False)) \<and>
   (\<exists>t ds. reconcile re_search []
     (example_template [''prod'', ''dev''] [] (DBool False))
     (example_template [''dev''] [] (DBool False)) = Inr t \<and>
     deleted t = DList (ds @ [\<lparr>d_deleted = True, d_included_accounts = [''prod''],
                d_excluded_accounts = [''dev'']\<rparr>]))"
proof -
  have p: "scope_passes re_search []
     (example_template [''prod'', ''dev''] [] (DBool False))
     (example_template [''dev''] [] (DBool False))
   = Inr ([''prod''], example_template [''dev'', ''prod''] [] (DBool False))"
    by (simp add: reconcile_eval)
  have n: "[''prod''] \<noteq> []" by simp
  have d: "deleted (example_template [''dev''] [] (DBool False)) \<noteq> DBool True"
    by (simp add: example_template_def)
  from directive_of_accumulated[OF p n d] p show ?thesis
    by (simp add: example_template_def)
qed

text \<open>
  C7. Given what the passes accumulated, the reconciler returns, and the \<open>deleted\<close>
  field of its result is: unchanged when nothing was accumulated; the existing list of
  directives with the new directive appended, every earlier directive kept in place,
  when \<open>deleted\<close> was a list; a list of the new directive alone when \<open>deleted\<close> was
  \<open>False\<close>; and still \<open>True\<close> when it was \<open>True\<close>.
\<close>

theorem directives_accumulate:
  assumes "scope_passes search accounts main cur = Inr (dia, t1)"
  shows "\<exists>t. reconcile search accounts main cur = Inr t \<and>
           deleted t =
             (if dia = [] then deleted cur
              else case deleted cur of
                     DList ds \<Rightarrow> DList (ds @ [deleted_obj dia (included_accounts cur)])
                   | DBool b \<Rightarrow>
                       if b then DBool True
                       else DList [deleted_obj dia (included_accounts cur)])"
proof -
  have r: "reconcile search accounts main cur = Inr (add_directive dia (included_accounts cur) t1)"
    using assms by (simp add: reconcile_def)
  have d: "deleted t1 = deleted cur" using assms by (rule scope_passes_deleted)
  show ?thesis unfolding r by (simp add: deleted_add_directive d split: deleted_field.splits)
qed

text \<open>A record that carries one directive gets the second one appended.\<close>

theorem directives_accumulate_witness:
  "scope_passes re_search []
     (example_template [''prod'', ''dev''] [] (DList [earlier_directive]))
     (example_template [''dev''] [] (DList [earlier_directive]))
   = Inr ([''prod''], example_template [''dev'', ''prod''] [] (DList [earlier_directive])) \<and>
   (\<exists>t. reconcile re_search []
     (example_template [''prod'', ''dev''] [] (DList [earlier_directive]))
     (example_template [''dev''] [] (DList [earlier_directive]))
     = Inr t \<and>
     deleted t = DList
       [earlier_directive,
        \<lparr>d_deleted = True, d_included_accounts = [''prod''], d_excluded_accounts = [''dev'']\<rparr>])"
proof -
  have p: "scope_passes re_search []
     (example_template [''prod'', ''dev''] [] (DList [earlier_directive]))
     (example_template [''dev''] [] (DList [earlier_directive]))
   = Inr ([''prod''], example_template [''dev'', ''prod''] [] (DList [earlier_directive]))"
    by (simp add: reconcile_eval)
  from directives_accumulate[OF p] p show ?thesis
    by (simp add: example_template_def deleted_obj_def)
qed

subsection \<open>The newly-excluded pass\<close>

lemma outcomes_exclusive:
  "\<not> (stays_excluded search me a \<and> marked_for_deletion search mi me a)"
  "\<not> (stays_excluded search me a \<and> newly_excluded search mi me a)"
  "\<not> (marked_for_deletion search mi me a \<and> newly_excluded search mi me a)"
  by (auto simp: stays_excluded_def marked_for_deletion_def newly_excluded_def)

text \<open>
  C3. When the reconciler returns, every matcher of the current \<open>excluded_accounts\<close>
  has exactly one of three outcomes: it was found in the baseline's exclusions
  (\<open>stays_excluded\<close>); or it was not, and it was found in the baseline's inclusions or
  the baseline included \<open>*\<close> (\<open>marked_for_deletion\<close>); or neither (\<open>newly_excluded\<close>).
  The rebuilt \<open>excluded_accounts\<close> are the matchers of the first and the third kind, in
  order. Those of the second kind are appended to the current \<open>included_accounts\<close>
  (after what the shrink pass appended) and to the accumulated list, which is the
  \<open>included_accounts\<close> of the directive synthesized when there is such a matcher and
  \<open>deleted\<close> is not \<open>True\<close>.
\<close>

theorem excluded_matchers_classified:
  assumes "reconcile search accounts main cur = Inr t"
  shows "\<exists>dia0 inc0.
     shrink_pass search accounts (included_accounts main) (included_accounts cur) = Inr (dia0, inc0) \<and>
     (\<forall>a \<in> set (excluded_accounts cur).
        (stays_excluded search (excluded_accounts main) a \<and>
           \<not> marked_for_deletion search (included_accounts main) (excluded_accounts main) a \<and>
           \<not> newly_excluded search (included_accounts main) (excluded_accounts main) a) \<or>
        (\<not> stays_excluded search (excluded_accounts main) a \<and>
           marked_for_deletion search (included_accounts main) (excluded_accounts main) a \<and>
           \<not> newly_excluded search (included_accounts main) (excluded_accounts main) a) \<or>
        (\<not> stays_excluded search (excluded_accounts main) a \<and>
           \<not> marked_for_deletion search (included_accounts main) (excluded_accounts main) a \<and>
           newly_excluded search (included_accounts main) (excluded_accounts main) a)) \<and>
     excluded_accounts t =
       filter (\<lambda>a. stays_excluded search (excluded_accounts main) a \<or>
                    newly_excluded search (included_accounts main) (excluded_accounts main) a)
         (excluded_accounts cur) \<and>
     included_accounts t =
       inc0 @ filter (marked_for_deletion search (included_accounts main) (excluded_accounts main))
                (excluded_accounts cur) \<and>
     (deleted cur \<noteq> DBool True \<longrightarrow>
      filter (marked_for_deletion search (included_accounts main) (excluded_accounts main))
        (excluded_accounts cur) \<noteq> [] \<longrightarrow>
      (\<exists>ds. deleted t = DList (ds @
         [\<lparr>d_deleted = True,
           d_included_accounts =
             dia0 @ filter (marked_for_deletion search (included_accounts main) (excluded_accounts main))
                      (excluded_accounts cur),
           d_excluded_accounts = filter (\<lambda>ea. ea \<noteq> ''*'') (included_accounts cur)\<rparr>])))"
proof -
  let ?M = "marked_for_deletion search (included_accounts main) (excluded_accounts main)"
  let ?K = "kept_excluded search (included_accounts main) (excluded_accounts main)"
  from assms obtain dia t1 where
    sp: "scope_passes search accounts main cur = Inr (dia, t1)"
    and t: "t = add_directive dia (included_accounts cur) t1"
    by (auto simp: reconcile_def split: sum.splits)
  from sp obtain dia0 inc0 where
    sh: "shrink_pass search accounts (included_accounts main) (included_accounts cur) = Inr (dia0, inc0)"
    and dia: "dia = dia0 @ filter ?M (excluded_accounts cur)"
    and t1: "t1 = cur\<lparr>included_accounts := inc0 @ filter ?M (excluded_accounts cur),
                      excluded_accounts := filter ?K (excluded_accounts cur)\<rparr>"
    and one: "\<forall>a \<in> set (excluded_accounts cur). ?M a \<noteq> ?K a"
    by (rule scope_passes_Inr)
  have ex: "excluded_accounts t = filter ?K (excluded_accounts cur)"
    using t t1 by (simp add: add_directive_def split: deleted_field.splits)
  have inc: "included_accounts t = inc0 @ filter ?M (excluded_accounts cur)"
    using t t1 by (simp add: add_directive_def split: deleted_field.splits)
  have cls: "\<forall>a \<in> set (excluded_accounts cur).
        (stays_excluded search (excluded_accounts main) a \<and> \<not> ?M a \<and>
           \<not> newly_excluded search (included_accounts main) (excluded_accounts main) a) \<or>
        (\<not> stays_excluded search (excluded_accounts main) a \<and> ?M a \<and>
           \<not> newly_excluded search (included_accounts main) (excluded_accounts main) a) \<or>
        (\<not> stays_excluded search (excluded_accounts main) a \<and> \<not> ?M a \<and>
           newly_excluded search (included_accounts main) (excluded_accounts main) a)"
    using one outcomes_exclusive[where search = search and me = "excluded_accounts main"
        and mi = "included_accounts main"]
    unfolding kept_excluded_def by blast
  have del: "deleted cur \<noteq> DBool True \<longrightarrow> filter ?M (excluded_accounts cur) \<noteq> [] \<longrightarrow>
      (\<exists>ds. deleted t = DList (ds @
         [\<lparr>d_deleted = True, d_included_accounts = dia0 @ filter ?M (excluded_accounts cur),
           d_excluded_accounts = filter (\<lambda>ea. ea \<noteq> ''*'') (included_accounts cur)\<rparr>]))"
  proof (intro impI)
    assume nd: "deleted cur \<noteq> DBool True" and ne: "filter ?M (excluded_accounts cur) \<noteq> []"
    have d1: "deleted t1 = deleted cur" using t1 by simp
    show "\<exists>ds. deleted t = DList (ds @
         [\<lparr>d_deleted = True, d_included_accounts = dia0 @ filter ?M (excluded_accounts cur),
           d_excluded_accounts = filter (\<lambda>ea. ea \<noteq> ''*'') (included_accounts cur)\<rparr>])"
    proof (cases "deleted cur")
      case (DBool b)
      with nd have "\<not> b" by simp
      with DBool d1 ne t dia have "deleted t = DList ([] @ [deleted_obj dia (included_accounts cur)])"
        by (simp add: deleted_add_directive)
      then show ?thesis unfolding deleted_obj_def dia by blast
    next
      case (DList ds)
      with d1 ne t dia have "deleted t = DList (ds @ [deleted_obj dia (included_accounts cur)])"
        by (simp add: deleted_add_directive)
      then show ?thesis unfolding deleted_obj_def dia by blast
    qed
  qed
  from sh cls ex inc del show ?thesis unfolding kept_excluded_def by blast
qed

text \<open>
  The two examples of the claim: with baseline \<open>included_accounts = [*]\<close> and no
  exclusion, a current exclusion of \<open>prod\<close> moves \<open>prod\<close> into the directive; excluded
  in both revisions, \<open>prod\<close> stays excluded and no directive is made.
\<close>

theorem excluded_matchers_classified_witness:
  "reconcile re_search []
     (example_template [''*''] [] (DBool False))
     (example_template [''*''] [''prod''] (DBool False))
   = Inr (example_template [''*'', ''prod''] []
       (DList [\<lparr>d_deleted = True, d_included_accounts = [''prod''],
                d_excluded_accounts = []\<rparr>])) \<and>
   marked_for_deletion re_search [''*''] [] ''prod'' \<and>
   reconcile re_search []
     (example_template [''*''] [''prod''] (DBool False))
     (example_template [''*''] [''prod''] (DBool False))
   = Inr (example_template [''*''] [''prod''] (DBool False)) \<and>
   stays_excluded re_search [''prod''] ''prod''"
proof -
  have r1: "reconcile re_search []
     (example_template [''*''] [] (DBool False))
     (example_template [''*''] [''prod''] (DBool False))
   = Inr (example_template [''*'', ''prod''] []
       (DList [\<lparr>d_deleted = True, d_included_accounts = [''prod''],
                d_excluded_accounts = []\<rparr>]))"
    by (simp add: reconcile_eval)
  have r2: "reconcile re_search []
     (example_template [''*''] [''prod''] (DBool False))
     (example_template [''*''] [''prod''] (DBool False))
   = Inr (example_template [''*''] [''prod''] (DBool False))"
    by (simp add: reconcile_eval)
  have m: "marked_for_deletion re_search [''*''] [] ''prod''"
    by (simp add: marked_for_deletion_def reconcile_eval)
  have s: "stays_excluded re_search [''prod''] ''prod''"
    by (simp add: stays_excluded_def reconcile_eval)
  from excluded_matchers_classified[OF r1] excluded_matchers_classified[OF r2] r1 r2 m s
  show ?thesis by simp
qed

subsection \<open>The shrink pass\<close>

text \<open>
  C2. Wildcard narrowing: with baseline \<open>[*]\<close>, current \<open>[dev, staging]\<close> and the
  registry \<open>prod, staging, dev\<close>, whose account ids are plain text and where the id of
  \<open>prod\<close> does not occur in the current list, the directive's \<open>included_accounts\<close> is
  the matcher of \<open>prod\<close> alone. Explicit shrink: with baseline \<open>[prod, staging, dev]\<close>
  and current \<open>[staging, dev]\<close> it is \<open>prod\<close> alone, whatever the registry.
\<close>

theorem shrink_pass_examples:
  assumes "\<forall>c \<in> set idp. \<not> re_special c"
    and "\<forall>c \<in> set ids. \<not> re_special c"
    and "\<forall>c \<in> set idd. \<not> re_special c"
    and "\<not> contains (str_join newline [''dev'', ''staging'']) idp"
  shows
   "reconcile re_search
      [\<lparr>account_id = idp, account_name = ''prod''\<rparr>,
       \<lparr>account_id = ids, account_name = ''staging''\<rparr>,
       \<lparr>account_id = idd, account_name = ''dev''\<rparr>]
      (example_template [''*''] [] (DBool False))
      (example_template [''dev'', ''staging''] [] (DBool False))
    = Inr (example_template
        [''dev'', ''staging'', account_regex \<lparr>account_id = idp, account_name = ''prod''\<rparr>] []
        (DList [\<lparr>d_deleted = True,
                 d_included_accounts =
                   [account_regex \<lparr>account_id = idp, account_name = ''prod''\<rparr>],
                 d_excluded_accounts = [''dev'', ''staging'']\<rparr>])) \<and>
    reconcile re_search accounts
      (example_template [''prod'', ''staging'', ''dev''] [] (DBool False))
      (example_template [''staging'', ''dev''] [] (DBool False))
    = Inr (example_template [''staging'', ''dev'', ''prod''] []
        (DList [\<lparr>d_deleted = True, d_included_accounts = [''prod''],
                 d_excluded_accounts = [''staging'', ''dev'']\<rparr>]))"
proof -
  let ?text = "str_join newline [''dev'', ''staging'']"
  let ?p = "\<lparr>account_id = idp, account_name = ''prod''\<rparr>"
  let ?s = "\<lparr>account_id = ids, account_name = ''staging''\<rparr>"
  let ?d = "\<lparr>account_id = idd, account_name = ''dev''\<rparr>"
  have np: "\<not> contains ?text ''prod''" by (simp add: newline_def)
  have sp: "re_search (account_regex ?p) ?text = Inr False"
    using re_search_account_regex[of ?p ?text] assms(1,4) np by (simp add: re_special_def)
  have cs: "contains ?text ''staging''" by (simp add: newline_def)
  have ss: "re_search (account_regex ?s) ?text = Inr True"
    using re_search_account_regex[of ?s ?text] assms(2) cs by (simp add: re_special_def)
  have cd: "contains ?text ''dev''" by (simp add: newline_def)
  have sd: "re_search (account_regex ?d) ?text = Inr True"
    using re_search_account_regex[of ?d ?text] assms(3) cd by (simp add: re_special_def)
  have il: "implicit_loop re_search ?text [?p, ?s, ?d] ([], [''dev'', ''staging''])
        = Inr ([account_regex ?p], [''dev'', ''staging'', account_regex ?p])"
    using sp ss sd by simp
  have a: "reconcile re_search [?p, ?s, ?d]
      (example_template [''*''] [] (DBool False))
      (example_template [''dev'', ''staging''] [] (DBool False))
    = Inr (example_template [''dev'', ''staging'', account_regex ?p] []
        (DList [\<lparr>d_deleted = True, d_included_accounts = [account_regex ?p],
                 d_excluded_accounts = [''dev'', ''staging'']\<rparr>]))"
    using il
    by (simp add: example_template_def reconcile_def scope_passes_def shrink_pass_def
          add_directive_def deleted_obj_def)
  have b: "reconcile re_search accounts
      (example_template [''prod'', ''staging'', ''dev''] [] (DBool False))
      (example_template [''staging'', ''dev''] [] (DBool False))
    = Inr (example_template [''staging'', ''dev'', ''prod''] []
        (DList [\<lparr>d_deleted = True, d_included_accounts = [''prod''],
                 d_excluded_accounts = [''staging'', ''dev'']\<rparr>]))"
    by (simp add: reconcile_eval)
  from a b show ?thesis by simp
qed

text \<open>The registry with twelve-digit account ids.\<close>

theorem shrink_pass_examples_witness:
  "reconcile re_search
      [\<lparr>account_id = ''111111111111'', account_name = ''prod''\<rparr>,
       \<lparr>account_id = ''222222222222'', account_name = ''staging''\<rparr>,
       \<lparr>account_id = ''333333333333'', account_name = ''dev''\<rparr>]
      (example_template [''*''] [] (DBool False))
      (example_template [''dev'', ''staging''] [] (DBool False))
    = Inr (example_template [''dev'', ''staging'', ''(111111111111|prod)''] []
        (DList [\<lparr>d_deleted = True, d_included_accounts = [''(111111111111|prod)''],
                 d_excluded_accounts = [''dev'', ''staging'']\<rparr>]))"
proof -
  have 1: "\<forall>c \<in> set ''111111111111''. \<not> re_special c" by (simp add: re_special_def)
  have 2: "\<forall>c \<in> set ''222222222222''. \<not> re_special c" by (simp add: re_special_def)
  have 3: "\<forall>c \<in> set ''333333333333''. \<not> re_special c" by (simp add: re_special_def)
  have 4: "\<not> contains (str_join newline [''dev'', ''staging'']) ''111111111111''"
    by (simp add: newline_def)
  from shrink_pass_examples[OF 1 2 3 4] show ?thesis
    by (simp add: account_regex_def)
qed

text \<open>
  C10. Coverage is decided by a search in the newline-joined current list, not by
  membership: \<open>prod\<close> is in the baseline and not in the current list
  \<open>[production]\<close>, yet it is found in \<open>production\<close> and the reconciler returns the
  current record unchanged, with no directive. The same holds when the baseline is
  \<open>[*]\<close> and the registry has the accounts \<open>prod\<close> and \<open>production\<close>.
\<close>

theorem substring_cross_match:
  "''prod'' \<in> set (included_accounts (example_template [''prod'', ''production''] [] (DBool False))) \<and>
   ''prod'' \<notin> set (included_accounts (example_template [''production''] [] (DBool False))) \<and>
   re_search ''prod'' (str_join newline [''production'']) = Inr True \<and>
   reconcile re_search []
     (example_template [''prod'', ''production''] [] (DBool False))
     (example_template [''production''] [] (DBool False))
   = Inr (example_template [''production''] [] (DBool False)) \<and>
   re_search ''(111111111111|prod)'' (str_join newline [''production'']) = Inr True \<and>
   reconcile re_search
     [\<lparr>account_id = ''111111111111'', account_name = ''prod''\<rparr>,
      \<lparr>account_id = ''222222222222'', account_name = ''production''\<rparr>]
     (example_template [''*''] [] (DBool False))
     (example_template [''production''] [] (DBool False))
   = Inr (example_template [''production''] [] (DBool False))"
  by (simp add: reconcile_eval account_regex_def)

subsection \<open>The Deletion Materializer\<close>

text \<open>The definitions unfolded to evaluate the example collaborators.\<close>

lemmas world_eval = example_world_def example_yaml_load_def role_template_def
  admin_text_def admin_reordered_text_def auditor_text_def removed_text_def
  bind_err_def string_io_def template_cls_of_def load_template_def

lemmas differ_eval = collect_modified_def resolve_rename_def emit_modified_def
  a_blob_text_def os_path_join_def endswith_def no_files_def

lemmas repo_eval = retrieve_git_changes_def resolve_from_def resolve_to_def
  classify_diff_def example_repo_def empty_diff_def no_files_def bind_err_def

lemma for_each_append:
  "for_each body (xs @ ys) s = bind_err (for_each body xs s) (for_each body ys)"
  by (induction xs arbitrary: s) (auto simp: bind_err_def split: sum.splits)

lemma for_each_skip:
  assumes "\<And>s. body x s = Inr s"
  shows "for_each body (xs @ x # ys) s = for_each body (xs @ ys) s"
proof -
  have "for_each body (x # ys) = for_each body ys"
    by (rule ext) (simp add: assms)
  then show ?thesis by (simp add: for_each_append)
qed

lemma deleted_template_Inr:
  assumes "load_template w g = Inr t"
  shows "deleted_template w g templates =
           Inr (templates @ map (\<lambda>t. t\<lparr>deleted := DBool True\<rparr>)
                               (filter (\<lambda>t. deleted t \<noteq> DBool True) [t]))"
  using assms by (simp add: deleted_template_def bind_err_def)

lemma for_each_deleted_template:
  "map (load_template w) gs = map Inr ts \<Longrightarrow>
     for_each (deleted_template w) gs acc =
       Inr (acc @ map (\<lambda>t. t\<lparr>deleted := DBool True\<rparr>)
                     (filter (\<lambda>t. deleted t \<noteq> DBool True) ts))"
proof (induction gs arbitrary: ts acc)
  case Nil
  then show ?case by simp
next
  case (Cons g gs)
  then obtain t ts' where ts: "ts = t # ts'" and g: "load_template w g = Inr t"
    and rest: "map (load_template w) gs = map Inr ts'"
    by (cases ts) auto
  show ?case
    unfolding ts using deleted_template_Inr[OF g, of acc] Cons.IH[OF rest]
    by simp
qed

text \<open>
  C9. When each deleted record parses to a template, the materializer returns, with one
  template for each record whose template is not already \<open>deleted = True\<close> and none for
  the others, in order; each returned template is the parsed one with \<open>deleted\<close> set to
  \<open>True\<close>, so its \<open>included_accounts\<close> and \<open>excluded_accounts\<close> are the parsed ones.
\<close>

theorem materialize_deleted:
  assumes "map (load_template w) changes = map Inr ts"
  shows "\<exists>out.
     create_templates_for_deleted_files w changes = Inr out \<and>
     out = map (\<lambda>t. t\<lparr>deleted := DBool True\<rparr>) (filter (\<lambda>t. deleted t \<noteq> DBool True) ts) \<and>
     map included_accounts out = map included_accounts (filter (\<lambda>t. deleted t \<noteq> DBool True) ts) \<and>
     map excluded_accounts out = map excluded_accounts (filter (\<lambda>t. deleted t \<noteq> DBool True) ts) \<and>
     map deleted out = map (\<lambda>t. DBool True) (filter (\<lambda>t. deleted t \<noteq> DBool True) ts)"
  using for_each_deleted_template[OF assms, of "[]"]
  by (simp add: create_templates_for_deleted_files_def comp_def)

text \<open>Two deleted files, the second already marked as deleted.\<close>

theorem materialize_deleted_witness:
  "map (load_template (example_world []))
     [\<lparr>path = ''/repo/admin.yaml'', content = Some admin_text, is_deleted = True\<rparr>,
      \<lparr>path = ''/repo/guest.yaml'', content = Some removed_text, is_deleted = True\<rparr>]
   = map Inr
     [\<lparr>file_path = ''/repo/admin.yaml'', resource_id = ''admin'', included_accounts = [''*''],
       excluded_accounts = [], deleted = DBool False\<rparr>,
      \<lparr>file_path = ''/repo/guest.yaml'', resource_id = ''guest'', included_accounts = [''*''],
       excluded_accounts = [], deleted = DBool True\<rparr>] \<and>
   create_templates_for_deleted_files (example_world [])
     [\<lparr>path = ''/repo/admin.yaml'', content = Some admin_text, is_deleted = True\<rparr>,
      \<lparr>path = ''/repo/guest.yaml'', content = Some removed_text, is_deleted = True\<rparr>]
   = Inr [\<lparr>file_path = ''/repo/admin.yaml'', resource_id = ''admin'', included_accounts = [''*''],
           excluded_accounts = [], deleted = DBool True\<rparr>]"
proof -
  have l: "map (load_template (example_world []))
     [\<lparr>path = ''/repo/admin.yaml'', content = Some admin_text, is_deleted = True\<rparr>,
      \<lparr>path = ''/repo/guest.yaml'', content = Some removed_text, is_deleted = True\<rparr>]
   = map Inr
     [\<lparr>file_path = ''/repo/admin.yaml'', resource_id = ''admin'', included_accounts = [''*''],
       excluded_accounts = [], deleted = DBool False\<rparr>,
      \<lparr>file_path = ''/repo/guest.yaml'', resource_id = ''guest'', included_accounts = [''*''],
       excluded_accounts = [], deleted = DBool True\<rparr>]"
    by (simp add: world_eval)
  from materialize_deleted[OF l] l show ?thesis by simp
qed

subsection \<open>The Revision Differencer\<close>

lemma collect_modified_pure_rename:
  assumes "os_path_join repo_dir (a_path e) \<noteq> os_path_join repo_dir (b_path e)"
    and "endswith (os_path_join repo_dir (b_path e)) ''.yaml''"
    and "file_regex_search w (os_path_join repo_dir (b_path e)) = Inr True"
    and "a_blob e = Some text"
    and "noq_template_search w text"
    and "open_file w (os_path_join repo_dir (b_path e)) = Inr current_text"
    and "yaml_load w current_text = Inr template_dict"
    and "yaml_load w text = Inr main_template_dict"
    and "\<not> DeepDiff w template_dict main_template_dict"
  shows "collect_modified w repo_dir e files = Inr files"
  using assms
  by (simp add: collect_modified_def resolve_rename_def a_blob_text_def bind_err_def
        string_io_def Let_def)

text \<open>
  C4. A modified entry whose two paths differ, whose post-image is a tagged \<open>.yaml\<close>
  file, whose pre-image is tagged, and whose two parsed documents show no difference
  under \<open>DeepDiff\<close>, adds no record to any of the three lists: the result of the whole
  classification is what it is without the entry.
\<close>

theorem pure_rename_emits_nothing:
  assumes "os_path_join repo_dir (a_path e) \<noteq> os_path_join repo_dir (b_path e)"
    and "endswith (os_path_join repo_dir (b_path e)) ''.yaml''"
    and "file_regex_search w (os_path_join repo_dir (b_path e)) = Inr True"
    and "a_blob e = Some text"
    and "noq_template_search w text"
    and "open_file w (os_path_join repo_dir (b_path e)) = Inr current_text"
    and "yaml_load w current_text = Inr template_dict"
    and "yaml_load w text = Inr main_template_dict"
    and "\<not> DeepDiff w template_dict main_template_dict"
  shows "collect_modified w repo_dir e files = Inr files \<and>
         classify_diff w repo_dir (diff_index\<lparr>iter_M := before @ e # after\<rparr>) =
         classify_diff w repo_dir (diff_index\<lparr>iter_M := before @ after\<rparr>)"
proof -
  have step: "\<And>s. collect_modified w repo_dir e s = Inr s"
    using assms by (rule collect_modified_pure_rename)
  have "\<And>s. for_each (collect_modified w repo_dir) (before @ e # after) s =
             for_each (collect_modified w repo_dir) (before @ after) s"
    using step by (rule for_each_skip)
  then show ?thesis using step by (simp add: classify_diff_def)
qed

text \<open>A file renamed with its keys reordered.\<close>

theorem pure_rename_emits_nothing_witness:
  "collect_modified (example_world [(''/repo/new.yaml'', admin_reordered_text)]) ''/repo''
     \<lparr>a_path = ''old.yaml'', b_path = ''new.yaml'', a_blob = Some admin_text\<rparr> no_files
   = Inr no_files \<and>
   classify_diff (example_world [(''/repo/new.yaml'', admin_reordered_text)]) ''/repo''
     (empty_diff\<lparr>iter_M := [] @
        \<lparr>a_path = ''old.yaml'', b_path = ''new.yaml'', a_blob = Some admin_text\<rparr> # []\<rparr>)
   = Inr no_files"
proof -
  let ?w = "example_world [(''/repo/new.yaml'', admin_reordered_text)]"
  let ?e = "\<lparr>a_path = ''old.yaml'', b_path = ''new.yaml'', a_blob = Some admin_text\<rparr>"
  have 1: "os_path_join ''/repo'' (a_path ?e) \<noteq> os_path_join ''/repo'' (b_path ?e)"
    by (simp add: os_path_join_def endswith_def)
  have 2: "endswith (os_path_join ''/repo'' (b_path ?e)) ''.yaml''"
    by (simp add: os_path_join_def endswith_def)
  have 3: "file_regex_search ?w (os_path_join ''/repo'' (b_path ?e)) = Inr True"
    by (simp add: os_path_join_def endswith_def world_eval)
  have 4: "a_blob ?e = Some admin_text" by simp
  have 5: "noq_template_search ?w admin_text" by (simp add: world_eval)
  have 6: "open_file ?w (os_path_join ''/repo'' (b_path ?e)) = Inr admin_reordered_text"
    by (simp add: os_path_join_def endswith_def world_eval)
  have 7: "yaml_load ?w admin_reordered_text
             = Inr [(''name'', ''admin''), (''template_type'', ''role'')]"
    by (simp add: world_eval)
  have 8: "yaml_load ?w admin_text = Inr [(''template_type'', ''role''), (''name'', ''admin'')]"
    by (simp add: world_eval)
  have 9: "\<not> DeepDiff ?w [(''name'', ''admin''), (''template_type'', ''role'')]
                          [(''template_type'', ''role''), (''name'', ''admin'')]"
    by (simp add: world_eval)
  have e: "classify_diff ?w ''/repo'' (empty_diff\<lparr>iter_M := [] @ []\<rparr>) = Inr no_files"
    by (simp add: classify_diff_def empty_diff_def no_files_def bind_err_def)
  from pure_rename_emits_nothing[OF 1 2 3 4 5 6 7 8 9, where files = no_files
      and diff_index = empty_diff and before = "[]" and after = "[]"] e
  show ?thesis by simp
qed

text \<open>
  A renamed document whose content changed and whose \<open>resource_id\<close> changed: one
  deleted record and one new record are appended, and no modified record. The path of
  the deleted record is the old path joined with \<open>repo_dir\<close> once more.
\<close>

lemma rename_with_identity_change:
  assumes "os_path_join repo_dir (a_path e) \<noteq> os_path_join repo_dir (b_path e)"
    and "endswith (os_path_join repo_dir (b_path e)) ''.yaml''"
    and "file_regex_search w (os_path_join repo_dir (b_path e)) = Inr True"
    and "a_blob e = Some text"
    and "noq_template_search w text"
    and "open_file w (os_path_join repo_dir (b_path e)) = Inr current_text"
    and "yaml_load w current_text = Inr template_dict"
    and "yaml_load w text = Inr main_template_dict"
    and "DeepDiff w template_dict main_template_dict"
    and "template_cls_of w main_template_dict = Inr template_cls"
    and "template_cls (os_path_join repo_dir (os_path_join repo_dir (a_path e))) main_template_dict
           = Inr main_template"
    and "template_cls (os_path_join repo_dir (b_path e)) template_dict = Inr template"
    and "resource_id main_template \<noteq> resource_id template"
  shows "collect_modified w repo_dir e files =
     Inr (files\<lparr>
       deleted_files := deleted_files files @
         [\<lparr>path = os_path_join repo_dir (os_path_join repo_dir (a_path e)),
           content = Some text, is_deleted = True\<rparr>],
       new_files := new_files files @
         [\<lparr>path = os_path_join repo_dir (b_path e), content = None, is_deleted = False\<rparr>]\<rparr>)"
  using assms
  by (simp add: collect_modified_def resolve_rename_def a_blob_text_def bind_err_def
        string_io_def Let_def)

text \<open>Joined with an absolute \<open>repo_dir\<close>, a path is not changed by a second join.\<close>

lemma os_path_join_absolute:
  assumes "startswith repo_dir ''/''"
  shows "os_path_join repo_dir (os_path_join repo_dir p) = os_path_join repo_dir p"
proof (cases repo_dir)
  case Nil
  with assms show ?thesis by simp
next
  case (Cons c cs)
  with assms have c: "c = CHR ''/''" by simp
  show ?thesis
    unfolding os_path_join_def[of repo_dir p]
    using Cons c
    by (cases p) (auto simp: os_path_join_def)
qed

text \<open>
  C5. With the relative \<open>repo_dir = repo\<close>, a file renamed from \<open>old.yaml\<close> to
  \<open>new.yaml\<close> with its \<open>name\<close> changed gives one new record, for \<open>repo/new.yaml\<close>, and
  one deleted record, whose path is \<open>repo/repo/old.yaml\<close> where the old path is
  \<open>repo/old.yaml\<close>.
\<close>

theorem rename_split_relative_repo_dir:
  "collect_modified (example_world [(''repo/new.yaml'', auditor_text)]) ''repo''
     \<lparr>a_path = ''old.yaml'', b_path = ''new.yaml'', a_blob = Some admin_text\<rparr> no_files
   = Inr \<lparr>new_files = [\<lparr>path = ''repo/new.yaml'', content = None, is_deleted = False\<rparr>],
          deleted_files =
            [\<lparr>path = ''repo/repo/old.yaml'', content = Some admin_text, is_deleted = True\<rparr>],
          modified_files = []\<rparr> \<and>
   os_path_join ''repo'' ''old.yaml'' = ''repo/old.yaml''"
  by (simp add: differ_eval world_eval Let_def)

lemma fetch_all_ok:
  "\<forall>remote \<in> set rs. fetch repo remote = None \<Longrightarrow> fetch_all repo rs = (map Fetch rs, None)"
  by (induction rs) auto

lemma fetch_all_heads: "fetch_all (repo\<lparr>heads := hs\<rparr>) rs = fetch_all repo rs"
  by (induction rs) (auto split: option.splits prod.splits)

text \<open>
  C6 (as amended). With \<open>from_sha\<close> unset and every fetch succeeding, each remote is
  fetched and the starting revision is \<open>repo.commit("origin/main")\<close>: an exception of
  that call ends the function, and the local branches do not matter.
\<close>

theorem from_rev_defaults_to_origin_main:
  assumes "\<forall>remote \<in> set (remotes repo). fetch repo remote = None"
  shows "resolve_from repo None = (map Fetch (remotes repo), commit repo ''origin/main'') \<and>
         fst (retrieve_git_changes w repo repo_dir allow_dirty None to_sha) =
           (if is_dirty repo then [LogError dirty_message repo_dir] else []) @
           map Fetch (remotes repo) \<and>
         (\<forall>e. commit repo ''origin/main'' = Inl e \<longrightarrow>
            snd (retrieve_git_changes w repo repo_dir allow_dirty None to_sha) = Inl e) \<and>
         retrieve_git_changes w (repo\<lparr>heads := hs\<rparr>) repo_dir allow_dirty None to_sha =
           retrieve_git_changes w repo repo_dir allow_dirty None to_sha"
proof -
  have f: "fetch_all repo (remotes repo) = (map Fetch (remotes repo), None)"
    using assms by (rule fetch_all_ok)
  have r: "resolve_from repo None = (map Fetch (remotes repo), commit repo ''origin/main'')"
    using f by (simp add: resolve_from_def)
  have h: "resolve_from (repo\<lparr>heads := hs\<rparr>) None = resolve_from repo None"
    by (simp add: resolve_from_def fetch_all_heads)
  have t: "resolve_to (repo\<lparr>heads := hs\<rparr>) to_sha = resolve_to repo to_sha"
    by (simp add: resolve_to_def split: option.splits)
  show ?thesis
    using r h t by (simp add: retrieve_git_changes_def bind_err_def)
qed

text \<open>A repository whose only local branch is \<open>feature\<close>.\<close>

theorem from_rev_defaults_to_origin_main_witness:
  "resolve_from (example_repo False [''feature''] True False empty_diff) None
     = ([Fetch ''origin''], Inr 1) \<and>
   retrieve_git_changes (example_world []) (example_repo False [''feature''] True False empty_diff)
     ''/repo'' False None None = ([Fetch ''origin''], Inr no_files)"
proof -
  have 1: "\<forall>remote \<in> set (remotes (example_repo False [''feature''] True False empty_diff)).
             fetch (example_repo False [''feature''] True False empty_diff) remote = None"
    by (simp add: example_repo_def)
  have 2: "retrieve_git_changes (example_world [])
      (example_repo False [''feature''] True False empty_diff)
     ''/repo'' False None None = ([Fetch ''origin''], Inr no_files)"
    by (simp add: repo_eval)
  from from_rev_defaults_to_origin_main[OF 1]
  have "resolve_from (example_repo False [''feature''] True False empty_diff) None =
          (map Fetch (remotes (example_repo False [''feature''] True False empty_diff)),
           commit (example_repo False [''feature''] True False empty_diff) ''origin/main'')"
    by blast
  then have "resolve_from (example_repo False [''feature''] True False empty_diff) None
     = ([Fetch ''origin''], Inr 1)"
    by (simp add: example_repo_def)
  with 2 show ?thesis by simp
qed

text \<open>
  C6 as stated resolves to \<open>origin/master\<close> when the branch is \<open>master\<close>, and fails
  when there is neither \<open>main\<close> nor \<open>master\<close>. A repository with the branch \<open>master\<close>
  and the remote branch \<open>origin/master\<close> gets the error of \<open>repo.commit\<close>; a repository
  with neither branch, where \<open>origin/main\<close> resolves, gets its diff.
\<close>

theorem default_branch_counterexample:
  "main_or_master (example_repo False [''master''] False True empty_diff) = Inr ''master'' \<and>
   commit (example_repo False [''master''] False True empty_diff) ''origin/master'' = Inr 3 \<and>
   retrieve_git_changes (example_world []) (example_repo False [''master''] False True empty_diff)
     ''/repo'' False None None = ([Fetch ''origin''], Inl (OtherError ''BadName'')) \<and>
   main_or_master (example_repo False [''feature''] True False empty_diff) = Inl ValueError \<and>
   retrieve_git_changes (example_world []) (example_repo False [''feature''] True False empty_diff)
     ''/repo'' False None None = ([Fetch ''origin''], Inr no_files)"
  by (simp add: repo_eval main_or_master_def)

text \<open>
  C8. The function does not read \<open>allow_dirty\<close>: it returns the same with \<open>True\<close> as
  with \<open>False\<close>, and a dirty repository is reported with \<open>allow_dirty = True\<close>.
\<close>

theorem dirty_reported_when_allowed:
  "retrieve_git_changes w repo repo_dir True from_sha to_sha =
     retrieve_git_changes w repo repo_dir False from_sha to_sha \<and>
   retrieve_git_changes (example_world []) (example_repo True [''main''] True False empty_diff)
     ''/repo'' True None None
   = ([LogError dirty_message ''/repo'', Fetch ''origin''], Inr no_files)"
  by (simp add: repo_eval)

end
